theory Spec2Isabelle
  imports Complex_Main "HOL-Library.AList"
begin

section \<open>Errors\<close>

text \<open>
  Every exception the modelled code can raise is a value.  Python's \<open>assert\<close> raises
  \<open>AssertionError\<close>; the affine library raises \<open>TransformNotInvertibleError\<close> when a
  degenerate transform is inverted; dividing by a zero float raises \<open>ZeroDivisionError\<close>;
  a missing attribute or key raises \<open>AttributeError\<close> or \<open>KeyError\<close>; \<open>RegridError\<close> stands
  for any exception raised inside the regridding library, \<open>ValueError\<close> and
  \<open>RasterioIOError\<close> for the refusals of the array and raster libraries.
\<close>

datatype error =
    AssertionError
  | TransformNotInvertibleError
  | ZeroDivisionError
  | AttributeError
  | KeyError
  | RegridError
  | ValueError
  | RasterioIOError

section \<open>Skill score (scripts/drafts/skill\_score.py)\<close>

text \<open>
  \<^verbatim>\<open>
  def skill_score(model, bench, perfect):
      return (model - bench) / (perfect - bench)
  \<close>
  Metric values are modelled as exact reals.  The division of Python numbers raises when
  the divisor is zero.
\<close>

definition skill_score :: "real \<Rightarrow> real \<Rightarrow> real \<Rightarrow> error + real" where
  "skill_score model bench perfect =
     (if perfect - bench = 0 then Inl ZeroDivisionError
      else Inr ((model - bench) / (perfect - bench)))"

section \<open>Affine transforms and the pixel window (src/exporters/mantle\_modis.py)\<close>

text \<open>
  Modelled from the spec: the \<open>Affine\<close> class that \<open>window_from_extent\<close> receives is not
  part of the sources.  The glossary describes it as the linear mapping between pixel
  (column, row) indices and geographic (x, y) coordinates; it is taken here with its six
  coefficients \<open>x = a * col + b * row + c\<close>, \<open>y = d * col + e * row + f\<close>, with
  inversion failing on a zero determinant.  Coordinates are exact reals.
\<close>

datatype Affine = Affine (co_a: real) (co_b: real) (co_c: real) (co_d: real) (co_e: real) (co_f: real)

definition determinant :: "Affine \<Rightarrow> real" where
  "determinant t = co_a t * co_e t - co_b t * co_d t"

definition is_degenerate :: "Affine \<Rightarrow> bool" where
  "is_degenerate t = (determinant t = 0)"

text \<open>The operator \<open>aff * (x, y)\<close>.\<close>

definition apply_affine :: "Affine \<Rightarrow> real \<times> real \<Rightarrow> real \<times> real" where
  "apply_affine t p =
     (fst p * co_a t + snd p * co_b t + co_c t, fst p * co_d t + snd p * co_e t + co_f t)"

text \<open>The operator \<open>~aff\<close>.\<close>

definition invert :: "Affine \<Rightarrow> error + Affine" where
  "invert t =
     (if is_degenerate t then Inl TransformNotInvertibleError
      else
        let idet = 1 / determinant t;
            ra = co_e t * idet;
            rb = - co_b t * idet;
            rd = - co_d t * idet;
            re = co_a t * idet
        in Inr (Affine ra rb (- co_c t * ra - co_f t * rb) rd re (- co_c t * rd - co_f t * re)))"

text \<open>Python's \<open>int(x)\<close> on a float: truncation towards zero.\<close>

definition py_int :: "real \<Rightarrow> int" where
  "py_int x = (if x < 0 then \<lceil>x\<rceil> else \<lfloor>x\<rfloor>)"

text \<open>
  \<^verbatim>\<open>
  def window_from_extent(xmin, xmax, ymin, ymax, aff):
      col_start, row_start = ~aff * (xmin, ymax)
      col_stop, row_stop = ~aff * (xmax, ymin)
      return ((int(row_start), int(row_stop)), (int(col_start), int(col_stop)))
  \<close>
\<close>

type_synonym window = "(int \<times> int) \<times> (int \<times> int)"

definition window_from_extent :: "real \<Rightarrow> real \<Rightarrow> real \<Rightarrow> real \<Rightarrow> Affine \<Rightarrow> error + window" where
  "window_from_extent xmin xmax ymin ymax aff =
     (case invert aff of
        Inl err \<Rightarrow> Inl err
      | Inr iaff \<Rightarrow>
          let (col_start, row_start) = apply_affine iaff (xmin, ymax);
              (col_stop, row_stop) = apply_affine iaff (xmax, ymin)
          in Inr ((py_int row_start, py_int row_stop), (py_int col_start, py_int col_stop)))"

text \<open>
  The extent of a raster of \<open>width\<close> columns and \<open>height\<close> rows under the transform
  \<open>aff\<close>: a geographic point lies in it when its pixel coordinates fall in
  \<open>[0, width] \<times> [0, height]\<close>.
\<close>

definition point_in_extent :: "Affine \<Rightarrow> int \<Rightarrow> int \<Rightarrow> real \<times> real \<Rightarrow> bool" where
  "point_in_extent aff width height p =
     (case invert aff of
        Inl err \<Rightarrow> False
      | Inr iaff \<Rightarrow>
          let (col, row) = apply_affine iaff p
          in 0 \<le> col \<and> col \<le> of_int width \<and> 0 \<le> row \<and> row \<le> of_int height)"

definition box_in_extent :: "Affine \<Rightarrow> int \<Rightarrow> int \<Rightarrow> real \<Rightarrow> real \<Rightarrow> real \<Rightarrow> real \<Rightarrow> bool" where
  "box_in_extent aff width height xmin xmax ymin ymax =
     (point_in_extent aff width height (xmin, ymax) \<and>
      point_in_extent aff width height (xmax, ymax) \<and>
      point_in_extent aff width height (xmin, ymin) \<and>
      point_in_extent aff width height (xmax, ymin))"

text \<open>A window does not exceed a raster when all four of its bounds are pixel boundaries of it.\<close>

definition window_in_raster :: "int \<Rightarrow> int \<Rightarrow> window \<Rightarrow> bool" where
  "window_in_raster width height w =
     (case w of ((row_start, row_stop), (col_start, col_stop)) \<Rightarrow>
        0 \<le> row_start \<and> row_start \<le> height \<and> 0 \<le> row_stop \<and> row_stop \<le> height \<and>
        0 \<le> col_start \<and> col_start \<le> width \<and> 0 \<le> col_stop \<and> col_stop \<le> width)"

section \<open>Regridding (src/preprocess/base.py)\<close>

subsection \<open>Datasets\<close>

text \<open>
  Modelled from the spec: the gridded-array library is not part of the sources.  A
  dataset declares named dimensions, carries one-dimensional coordinate variables
  (\<open>lat\<close>, \<open>lon\<close>, \<open>time\<close>, ...) and a dictionary of data variables; a data array is
  one variable taken out of a dataset together with the coordinates of its dimensions.
  Values are exact reals, stored flat.
\<close>

record Variable =
  var_dims :: "string list"
  var_values :: "real list"

record Dataset =
  dims :: "string list"
  coords :: "(string \<times> real list) list"
  data_vars :: "(string \<times> Variable) list"

record DataArray =
  da_dims :: "string list"
  da_coords :: "(string \<times> real list) list"
  da_values :: "real list"

text \<open>Attribute access \<open>ds.lat\<close>: the coordinate of that name, or an \<open>AttributeError\<close>.\<close>

definition getattr :: "Dataset \<Rightarrow> string \<Rightarrow> error + real list" where
  "getattr ds name = (case map_of (coords ds) name of None \<Rightarrow> Inl AttributeError | Some v \<Rightarrow> Inr v)"

text \<open>Item access \<open>ds[var]\<close>: the data variable with the coordinates of its dimensions.\<close>

definition getitem :: "Dataset \<Rightarrow> string \<Rightarrow> error + DataArray" where
  "getitem ds name =
     (case map_of (data_vars ds) name of
        None \<Rightarrow> Inl KeyError
      | Some v \<Rightarrow> Inr \<lparr>da_dims = var_dims v,
                      da_coords = filter (\<lambda>kv. fst kv \<in> set (var_dims v)) (coords ds),
                      da_values = var_values v\<rparr>)"

text \<open>
  Modelled from the spec: \<open>list(ds.var().variables)\<close> is evaluated by the array library;
  following the contract ("every data variable has been resampled") it is taken to list
  the names of the dataset's data variables, in order.
\<close>

definition variables :: "Dataset \<Rightarrow> string list" where
  "variables ds = map fst (data_vars ds)"

text \<open>
  The constructor \<open>xr.Dataset(output_dict)\<close> on a dictionary of data arrays: the arrays
  become the data variables, their dimensions and coordinates are merged (a name that is
  already present is kept).
\<close>

definition merge_names :: "string list \<Rightarrow> string list \<Rightarrow> string list" where
  "merge_names acc names = acc @ filter (\<lambda>n. n \<notin> set acc) (remdups names)"

fun merge_coords :: "(string \<times> real list) list \<Rightarrow> (string \<times> real list) list \<Rightarrow> (string \<times> real list) list" where
  "merge_coords acc [] = acc"
| "merge_coords acc (kv # kvs) =
     (if fst kv \<in> fst ` set acc then merge_coords acc kvs else merge_coords (acc @ [kv]) kvs)"

definition Dataset_of_dict :: "(string \<times> DataArray) list \<Rightarrow> Dataset" where
  "Dataset_of_dict d =
     \<lparr>dims = foldl merge_names [] (map (\<lambda>kv. da_dims (snd kv)) d),
      coords = foldl merge_coords [] (map (\<lambda>kv. da_coords (snd kv)) d),
      data_vars = map (\<lambda>kv. (fst kv, \<lparr>var_dims = da_dims (snd kv), var_values = da_values (snd kv)\<rparr>)) d\<rparr>"

subsection \<open>Text of numbers and paths\<close>

text \<open>The decimal text of a natural number, as an f-string prints a length.\<close>

definition digit_char :: "nat \<Rightarrow> char" where
  "digit_char n = char_of (48 + n)"

function str_nat :: "nat \<Rightarrow> string" where
  "str_nat n = (if n < 10 then [digit_char n] else str_nat (n div 10) @ [digit_char (n mod 10)])"
  by pat_completeness auto
termination
  by (relation "measure id") auto

declare str_nat.simps [simp del]



text \<open>\<open>folder / filename\<close> on paths.\<close>

definition path_join :: "string \<Rightarrow> string \<Rightarrow> string" where
  "path_join folder filename = folder @ ''/'' @ filename"

subsection \<open>The regridder\<close>

text \<open>
  Modelled from the spec: the regridding library (\<open>xe.Regridder\<close>) is not part of the
  sources.  Building a regridder computes the interpolation weights for the method and
  the two grids and stores them in the named file, replacing a file of that name
  (\<open>reuse_weights=False\<close>); calling it applies the weights to one data array, which comes
  back on the destination grid; \<open>clean_weight_file\<close> removes the file.  The weight
  computation \<open>esmf_weights\<close> and the application \<open>esmf_apply\<close> are parameters; either may
  fail (\<open>None\<close>), which is the error \<open>RegridError\<close>.  The file system maps a path to the
  weights stored there.
\<close>

type_synonym grid = "real list \<times> real list"

type_synonym 'w filesystem = "string \<rightharpoonup> 'w"

record 'w Regridder =
  rg_filename :: string
  rg_weights :: 'w
  rg_lat_out :: "real list"
  rg_lon_out :: "real list"
  Ny_in :: nat
  Nx_in :: nat
  Ny_out :: nat
  Nx_out :: nat

definition Regridder_init ::
  "(string \<Rightarrow> grid \<Rightarrow> grid \<Rightarrow> 'w option) \<Rightarrow> 'w filesystem \<Rightarrow> Dataset \<Rightarrow> Dataset \<Rightarrow> string \<Rightarrow> string
     \<Rightarrow> 'w filesystem \<times> (error + 'w Regridder)" where
  "Regridder_init esmf_weights fs ds_in ds_out method filename =
     (case (map_of (coords ds_in) ''lat'', map_of (coords ds_in) ''lon'',
            map_of (coords ds_out) ''lat'', map_of (coords ds_out) ''lon'') of
        (Some lat_in, Some lon_in, Some lat_out, Some lon_out) \<Rightarrow>
          (case esmf_weights method (lat_in, lon_in) (lat_out, lon_out) of
             None \<Rightarrow> (fs, Inl RegridError)
           | Some w \<Rightarrow>
               (fs(filename \<mapsto> w),
                Inr \<lparr>rg_filename = filename, rg_weights = w,
                     rg_lat_out = lat_out, rg_lon_out = lon_out,
                     Ny_in = length lat_in, Nx_in = length lon_in,
                     Ny_out = length lat_out, Nx_out = length lon_out\<rparr>))
      | _ \<Rightarrow> (fs, Inl KeyError))"

definition Regridder_call :: "('w \<Rightarrow> real list \<Rightarrow> real list option) \<Rightarrow> 'w Regridder \<Rightarrow> DataArray \<Rightarrow> error + DataArray" where
  "Regridder_call esmf_apply regridder da =
     (case esmf_apply (rg_weights regridder) (da_values da) of
        None \<Rightarrow> Inl RegridError
      | Some vs \<Rightarrow>
          Inr \<lparr>da_dims = da_dims da,
               da_coords = AList.update ''lat'' (rg_lat_out regridder)
                             (AList.update ''lon'' (rg_lon_out regridder) (da_coords da)),
               da_values = vs\<rparr>)"

definition clean_weight_file :: "'w Regridder \<Rightarrow> 'w filesystem \<Rightarrow> 'w filesystem" where
  "clean_weight_file regridder fs = fs(rg_filename regridder := None)"

subsection \<open>regrid\<close>

text \<open>
  \<^verbatim>\<open>
  regridding_methods = ['bilinear', 'conservative', 'nearest_s2d', 'nearest_d2s', 'patch']
  filename = f'{method}_{shape_in[0]}x{shape_in[1]}_{shape_out[0]}x{shape_out[1]}.nc'
  \<close>
\<close>

definition regridding_methods :: "string list" where
  "regridding_methods = [''bilinear'', ''conservative'', ''nearest_s2d'', ''nearest_d2s'', ''patch'']"

definition weight_filename :: "string \<Rightarrow> nat \<times> nat \<Rightarrow> nat \<times> nat \<Rightarrow> string" where
  "weight_filename method shape_in shape_out =
     method @ ''_'' @ str_nat (fst shape_in) @ ''x'' @ str_nat (snd shape_in) @ ''_'' @
     str_nat (fst shape_out) @ ''x'' @ str_nat (snd shape_out) @ ''.nc''"

text \<open>
  The loop
  \<^verbatim>\<open>
  for var in variables:
      output_dict[var] = regridder(ds[var])
  \<close>
\<close>

fun regrid_vars ::
  "('w \<Rightarrow> real list \<Rightarrow> real list option) \<Rightarrow> 'w Regridder \<Rightarrow> Dataset \<Rightarrow> string list
     \<Rightarrow> (string \<times> DataArray) list \<Rightarrow> error + (string \<times> DataArray) list" where
  "regrid_vars esmf_apply regridder ds [] output_dict = Inr output_dict"
| "regrid_vars esmf_apply regridder ds (var # vars) output_dict =
     (case getitem ds var of
        Inl err \<Rightarrow> Inl err
      | Inr da \<Rightarrow>
          (case Regridder_call esmf_apply regridder da of
             Inl err \<Rightarrow> Inl err
           | Inr r \<Rightarrow> regrid_vars esmf_apply regridder ds vars (AList.update var r output_dict)))"

text \<open>
  \<open>regrid\<close> itself: the three assertions, the destination grid, the weight file name,
  the regridder, the loop over the variables, the new dataset, and the removal of the
  weight file.  The result is the file system afterwards and the dataset or the error.
\<close>

definition regrid ::
  "(string \<Rightarrow> grid \<Rightarrow> grid \<Rightarrow> 'w option) \<Rightarrow> ('w \<Rightarrow> real list \<Rightarrow> real list option) \<Rightarrow> string
     \<Rightarrow> 'w filesystem \<Rightarrow> Dataset \<Rightarrow> Dataset \<Rightarrow> string \<Rightarrow> 'w filesystem \<times> (error + Dataset)" where
  "regrid esmf_weights esmf_apply interim_folder fs ds reference_ds method =
     (if \<not> (''lat'' \<in> set (dims reference_ds) \<and> ''lon'' \<in> set (dims reference_ds)) then (fs, Inl AssertionError)
      else if \<not> (''lat'' \<in> set (dims ds) \<and> ''lon'' \<in> set (dims ds)) then (fs, Inl AssertionError)
      else if method \<notin> set regridding_methods then (fs, Inl AssertionError)
      else
        case getattr reference_ds ''lat'' of Inl err \<Rightarrow> (fs, Inl err) | Inr ref_lat \<Rightarrow>
        case getattr reference_ds ''lon'' of Inl err \<Rightarrow> (fs, Inl err) | Inr ref_lon \<Rightarrow>
        case getattr ds ''lat'' of Inl err \<Rightarrow> (fs, Inl err) | Inr lat \<Rightarrow>
        case getattr ds ''lon'' of Inl err \<Rightarrow> (fs, Inl err) | Inr lon \<Rightarrow>
          let ds_out = \<lparr>dims = [''lat'', ''lon''],
                        coords = [(''lat'', ref_lat), (''lon'', ref_lon)],
                        data_vars = []\<rparr>;
              shape_in = (length lat, length lon);
              shape_out = (length ref_lat, length ref_lon);
              filename = weight_filename method shape_in shape_out;
              savedir = path_join interim_folder filename
          in case Regridder_init esmf_weights fs ds ds_out method savedir of
               (fs1, Inl err) \<Rightarrow> (fs1, Inl err)
             | (fs1, Inr regridder) \<Rightarrow>
                 (case regrid_vars esmf_apply regridder ds (variables ds) [] of
                    Inl err \<Rightarrow> (fs1, Inl err)
                  | Inr output_dict \<Rightarrow>
                      (clean_weight_file regridder fs1, Inr (Dataset_of_dict output_dict))))"

subsection \<open>A sample regridding back end and sample datasets\<close>

text \<open>
  A stand-in for the two library parameters, on which the model can be run: the weights
  are the number of destination cells, and applying them fills the destination grid with
  the first source value (it fails on an array without values).  The sample datasets are
  two variables on a 2 by 3 grid, a 3 by 2 reference grid without data variables, a
  dataset that lacks the \<open>lon\<close> dimension, and a file system that already holds a stale
  weight file.
\<close>

definition fill_weights :: "string \<Rightarrow> grid \<Rightarrow> grid \<Rightarrow> nat option" where
  "fill_weights method grid_in grid_out = Some (length (fst grid_out) * length (snd grid_out))"

definition fill_apply :: "nat \<Rightarrow> real list \<Rightarrow> real list option" where
  "fill_apply n vs = (case vs of [] \<Rightarrow> None | v # _ \<Rightarrow> Some (replicate n v))"

definition example_ds :: Dataset where
  "example_ds =
     \<lparr>dims = [''lat'', ''lon''],
      coords = [(''lat'', [0, 1]), (''lon'', [10, 11, 12])],
      data_vars = [(''precip'', \<lparr>var_dims = [''lat'', ''lon''], var_values = [1, 2, 3, 4, 5, 6]\<rparr>),
                   (''vci'', \<lparr>var_dims = [''lat'', ''lon''], var_values = [7, 7, 7, 7, 7, 7]\<rparr>)]\<rparr>"

definition example_grid :: Dataset where
  "example_grid =
     \<lparr>dims = [''lat'', ''lon''],
      coords = [(''lat'', [0, 1/2, 1]), (''lon'', [10, 12])],
      data_vars = []\<rparr>"

definition example_no_lon :: Dataset where
  "example_no_lon =
     \<lparr>dims = [''lat'', ''time''],
      coords = [(''lat'', [0, 1]), (''time'', [0])],
      data_vars = [(''precip'', \<lparr>var_dims = [''time'', ''lat''], var_values = [1, 2]\<rparr>)]\<rparr>"

definition example_out :: Dataset where
  "example_out =
     \<lparr>dims = [''lat'', ''lon''],
      coords = [(''lat'', [0, 1/2, 1]), (''lon'', [10, 12])],
      data_vars = [(''precip'', \<lparr>var_dims = [''lat'', ''lon''], var_values = [1, 1, 1, 1, 1, 1]\<rparr>),
                   (''vci'', \<lparr>var_dims = [''lat'', ''lon''], var_values = [7, 7, 7, 7, 7, 7]\<rparr>)]\<rparr>"

definition example_fs :: "nat filesystem" where
  "example_fs = [''data/interim/nearest_s2d_2x3_3x2.nc'' \<mapsto> 99, ''data/interim/chirps.nc'' \<mapsto> 0]"

definition example_fs_after :: "nat filesystem" where
  "example_fs_after = [''data/interim/chirps.nc'' \<mapsto> 0]"

definition empty_Dataset :: Dataset where
  "empty_Dataset = \<lparr>dims = [], coords = [], data_vars = []\<rparr>"

text \<open>What the loop stores for one variable: the regridder applied to \<open>ds[var]\<close>.\<close>

definition regridded :: "('w \<Rightarrow> real list \<Rightarrow> real list option) \<Rightarrow> 'w Regridder \<Rightarrow> Dataset \<Rightarrow> string \<Rightarrow> DataArray option" where
  "regridded esmf_apply regridder ds var =
     (case getitem ds var of
        Inl err \<Rightarrow> None
      | Inr da \<Rightarrow> (case Regridder_call esmf_apply regridder da of Inl err \<Rightarrow> None | Inr r \<Rightarrow> Some r))"

section \<open>Temporal resampling (src/preprocess/base.py)\<close>

subsection \<open>Calendar dates\<close>

text \<open>
  Modelled from the spec: the time axis and its resampling belong to the array library,
  which is not part of the sources.  A time stamp is a calendar date of the proleptic
  Gregorian calendar; its ordinal is the day count the library's time arithmetic works
  with.
\<close>

datatype date = Date (year: int) (month: int) (day: int)

definition is_leap :: "int \<Rightarrow> bool" where
  "is_leap y = (y mod 4 = 0 \<and> (y mod 100 \<noteq> 0 \<or> y mod 400 = 0))"

definition days_in_month :: "int \<Rightarrow> int \<Rightarrow> int" where
  "days_in_month y m =
     (if m \<in> {1, 3, 5, 7, 8, 10, 12} then 31
      else if m \<in> {4, 6, 9, 11} then 30
      else if m = 2 then (if is_leap y then 29 else 28)
      else 0)"








definition month_end :: "int \<Rightarrow> date" where
  "month_end k = Date (k div 12) (k mod 12 + 1) (days_in_month (k div 12) (k mod 12 + 1))"

subsection \<open>Resampling a series\<close>










subsection \<open>A sample series\<close>




section \<open>Cropping a raster tile (src/exporters/mantle\_modis.py)\<close>

subsection \<open>Raster files and windows\<close>

text \<open>
  Modelled from the spec: the raster library (\<open>rasterio\<close>: datasets, \<open>bounds\<close>,
  \<open>from_bounds\<close>, \<open>window_transform\<close>, \<open>Window\<close>, \<open>read\<close>, \<open>write\<close>) and the region table
  \<open>src.utils.region_lookup\<close> are not part of the sources.  A raster tile is a
  two-dimensional array (one band, stored by rows) with its affine transform, its size
  and the value of a pixel that was never written; a region is a bounding box in
  geographic coordinates; a file is named by its folder and its name.  The library
  functions are taken with the meaning their names and the contract give them, in exact
  arithmetic.
\<close>

record 'a raster =
  r_transform :: Affine
  r_height :: int
  r_width :: int
  r_nodata :: 'a
  r_pixels :: "'a list list"


record Path =
  path_parent :: string
  path_name :: string














subsection \<open>chop\_roi\<close>




subsection \<open>A sample tile\<close>





definition example_chopped :: Path where
  "example_chopped = \<lparr>path_parent = ''data/raw/mantle_modis'', path_name = ''20010101_vci_kenya.tif''\<rparr>"

definition example_cropped :: "int raster" where
  "example_cropped =
     \<lparr>r_transform = Affine 1 0 1 0 (-1) 3, r_height = 2, r_width = 2, r_nodata = -1,
      r_pixels = [[11, 12], [21, 22]]\<rparr>"

section \<open>Properties of the skill score\<close>

text \<open>
  C9.  For every model, benchmark and perfect metric value with the benchmark different
  from the perfect value, \<open>skill_score\<close> returns exactly
  (model - benchmark) / (perfect - benchmark).
\<close>

theorem skill_score_formula:
  assumes "bench \<noteq> perfect"
  shows "skill_score model bench perfect = Inr ((model - bench) / (perfect - bench))"
  using assms by (simp add: skill_score_def)

theorem skill_score_formula_witness:
  "(2::real) \<noteq> 1 \<and> skill_score (3/2) 2 1 = Inr ((3/2 - 2) / (1 - 2))"
  using skill_score_formula [of 2 1 "3/2"] by simp

lemma skill_score_perfect: "bench \<noteq> perfect \<Longrightarrow> skill_score perfect bench perfect = Inr 1"
  by (simp add: skill_score_def)

lemma skill_score_bench: "bench \<noteq> perfect \<Longrightarrow> skill_score bench bench perfect = Inr 0"
  by (simp add: skill_score_def)

lemma skill_score_undefined: "skill_score model bench bench = Inl ZeroDivisionError"
  by (simp add: skill_score_def)

section \<open>Properties of the inverse transform\<close>

lemma invert_degenerate: "is_degenerate t \<Longrightarrow> invert t = Inl TransformNotInvertibleError"
  by (simp add: invert_def)

lemma invert_total: "\<not> is_degenerate t \<Longrightarrow> \<exists>iaff. invert t = Inr iaff"
  by (simp add: invert_def Let_def)




lemma py_int_close: "\<bar>of_int (py_int x) - x\<bar> < 1"
  unfolding py_int_def by (simp; linarith)

lemma py_int_of_int: "py_int (of_int n) = n"
  by (simp add: py_int_def)

lemma py_int_bounds:
  assumes "0 \<le> x" and "x \<le> of_int n"
  shows "0 \<le> py_int x \<and> py_int x \<le> n"
  using assms unfolding py_int_def by (simp add: floor_le_iff; linarith)

section \<open>Properties of the pixel window\<close>

lemma window_from_extent_degenerate:
  "is_degenerate aff \<Longrightarrow> window_from_extent xmin xmax ymin ymax aff = Inl TransformNotInvertibleError"
  by (simp add: window_from_extent_def invert_degenerate)



lemma window_from_extent_inside:
  assumes "\<not> is_degenerate aff"
  shows "\<exists>w. window_from_extent xmin xmax ymin ymax aff = Inr w \<and>
           (box_in_extent aff width height xmin xmax ymin ymax \<longrightarrow> window_in_raster width height w)"
proof -
  from assms obtain iaff where ia: "invert aff = Inr iaff"
    using invert_total by blast
  obtain c0 r0 where tl: "apply_affine iaff (xmin, ymax) = (c0, r0)"
    by (cases "apply_affine iaff (xmin, ymax)")
  obtain c1 r1 where br: "apply_affine iaff (xmax, ymin) = (c1, r1)"
    by (cases "apply_affine iaff (xmax, ymin)")
  have w: "window_from_extent xmin xmax ymin ymax aff =
             Inr ((py_int r0, py_int r1), (py_int c0, py_int c1))"
    by (simp add: window_from_extent_def ia tl br)
  have "window_in_raster width height ((py_int r0, py_int r1), (py_int c0, py_int c1))"
    if "box_in_extent aff width height xmin xmax ymin ymax"
  proof -
    from that have "0 \<le> c0" "c0 \<le> of_int width" "0 \<le> r0" "r0 \<le> of_int height"
      and "0 \<le> c1" "c1 \<le> of_int width" "0 \<le> r1" "r1 \<le> of_int height"
      by (simp_all add: box_in_extent_def point_in_extent_def ia tl br)
    then show ?thesis
      using py_int_bounds [of c0 width] py_int_bounds [of r0 height]
        py_int_bounds [of c1 width] py_int_bounds [of r1 height]
      by (simp add: window_in_raster_def)
  qed
  with w show ?thesis by blast
qed

text \<open>
  C2 (as stated, refuted).  The claim asks that a box lying partly outside the raster's
  extent makes the window extraction fail with a bounds error, and that no window ever
  exceeds the raster.  On a north-up 10 by 10 raster with unit pixels whose top-left
  corner is at (0, 10), the box \<open>[-5, 5] \<times> [5, 15]\<close> sticks out at the top and on the
  left; \<open>window_from_extent\<close> returns the window of rows -5 to 5 and columns -5 to 5
  without any error.
\<close>

theorem window_from_extent_no_bounds_error:
  "\<not> box_in_extent (Affine 1 0 0 0 (-1) 10) 10 10 (-5) 5 5 15 \<and>
   window_from_extent (-5) 5 5 15 (Affine 1 0 0 0 (-1) 10) = Inr ((-5, 5), (-5, 5)) \<and>
   \<not> window_in_raster 10 10 ((-5, 5), (-5, 5))"
  by (simp add: box_in_extent_def point_in_extent_def window_from_extent_def invert_def
      is_degenerate_def determinant_def apply_affine_def py_int_def window_in_raster_def)

text \<open>
  C2 (amended).  \<open>window_from_extent\<close> performs no bounds check: for every invertible
  transform and every box it returns a window and never a bounds error; the window does
  not exceed the raster whenever the box lies inside the raster's extent.
\<close>

theorem window_from_extent_unguarded:
  assumes "\<not> is_degenerate aff"
  shows "\<exists>w. window_from_extent xmin xmax ymin ymax aff = Inr w \<and>
           (box_in_extent aff width height xmin xmax ymin ymax \<longrightarrow> window_in_raster width height w)"
  using assms by (rule window_from_extent_inside)

theorem window_from_extent_unguarded_witness:
  "\<not> is_degenerate (Affine 1 0 0 0 (-1) 10) \<and>
   box_in_extent (Affine 1 0 0 0 (-1) 10) 10 10 (5/2) (15/2) 1 9 \<and>
   (\<exists>w. window_from_extent (5/2) (15/2) 1 9 (Affine 1 0 0 0 (-1) 10) = Inr w \<and>
        window_in_raster 10 10 w)"
proof -
  have d: "\<not> is_degenerate (Affine 1 0 0 0 (-1) 10)"
    by (simp add: is_degenerate_def determinant_def)
  have b: "box_in_extent (Affine 1 0 0 0 (-1) 10) 10 10 (5/2) (15/2) 1 9"
    by (simp add: box_in_extent_def point_in_extent_def invert_def is_degenerate_def
        determinant_def apply_affine_def)
  from window_from_extent_unguarded [OF d, of "5/2" "15/2" 1 9 10 10] b d
  show ?thesis by blast
qed

section \<open>Properties of regridding\<close>

lemma regrid_vars_keys:
  "regrid_vars A rg ds vars acc = Inr out \<Longrightarrow> fst ` set out = fst ` set acc \<union> set vars"
proof (induction vars arbitrary: acc)
  case Nil
  then show ?case by simp
next
  case (Cons v vars)
  from Cons.prems obtain da r where
    "regrid_vars A rg ds vars (AList.update v r acc) = Inr out"
    by (auto split: sum.splits)
  from Cons.IH [OF this] show ?case
    by (auto simp: dom_update)
qed

lemma regrid_vars_lookup:
  "regrid_vars A rg ds vars acc = Inr out \<Longrightarrow>
     map_of out v = (if v \<in> set vars then regridded A rg ds v else map_of acc v)"
proof (induction vars arbitrary: acc)
  case Nil
  then show ?case by simp
next
  case (Cons u vars)
  from Cons.prems obtain da r where da: "getitem ds u = Inr da"
    and r: "Regridder_call A rg da = Inr r"
    and rest: "regrid_vars A rg ds vars (AList.update u r acc) = Inr out"
    by (auto split: sum.splits)
  have "regridded A rg ds u = Some r"
    by (simp add: regridded_def da r)
  with Cons.IH [OF rest] show ?case
    by (auto simp: update_conv')
qed

lemma regrid_vars_Inr_iff:
  "(\<exists>out. regrid_vars A rg ds vars acc = Inr out) \<longleftrightarrow> (\<forall>v \<in> set vars. regridded A rg ds v \<noteq> None)"
proof (induction vars arbitrary: acc)
  case Nil
  then show ?case by simp
next
  case (Cons u vars)
  show ?case
    by (cases "getitem ds u"; cases "Regridder_call A rg (projr (getitem ds u))")
       (auto simp: regridded_def Cons.IH)
qed

lemma Regridder_call_coords:
  assumes "Regridder_call A rg da = Inr r"
  shows "map_of (da_coords r) ''lat'' = Some (rg_lat_out rg)"
    and "map_of (da_coords r) ''lon'' = Some (rg_lon_out rg)"
  using assms by (auto simp: Regridder_call_def update_conv' split: option.splits)

lemma map_of_merge_coords:
  "map_of (merge_coords acc kvs) k = (case map_of acc k of Some v \<Rightarrow> Some v | None \<Rightarrow> map_of kvs k)"
proof (induction kvs arbitrary: acc)
  case Nil
  then show ?case by (simp split: option.splits)
next
  case (Cons kv kvs)
  obtain k' v' where kv: "kv = (k', v')" by (cases kv)
  show ?case
  proof (cases "k' \<in> fst ` set acc")
    case True
    then have "map_of acc k' \<noteq> None"
      by (simp add: map_of_eq_None_iff)
    with True show ?thesis
      by (auto simp: Cons.IH kv split: option.splits)
  next
    case False
    then have "map_of acc k' = None"
      by (simp add: map_of_eq_None_iff)
    with False show ?thesis
      by (auto simp: Cons.IH kv map_add_def split: option.splits)
  qed
qed

lemma map_of_foldl_merge_coords_kept:
  "map_of acc k = Some v \<Longrightarrow> map_of (foldl merge_coords acc cs) k = Some v"
  by (induction cs arbitrary: acc) (simp_all add: map_of_merge_coords)

lemma map_of_foldl_merge_coords_first:
  assumes "cs \<noteq> []" and "\<forall>c \<in> set cs. map_of c k = Some v"
  shows "map_of (foldl merge_coords [] cs) k = Some v"
proof -
  from assms obtain c cs' where cs: "cs = c # cs'" by (cases cs) auto
  with assms(2) have "map_of (merge_coords [] c) k = Some v"
    by (simp add: map_of_merge_coords)
  then show ?thesis
    by (simp add: cs map_of_foldl_merge_coords_kept)
qed


lemma Regridder_init_ok:
  assumes "map_of (coords ds_in) ''lat'' = Some lat" "map_of (coords ds_in) ''lon'' = Some lon"
    and "W m (lat, lon) (rlat, rlon) = Some w"
  shows "Regridder_init W fs ds_in \<lparr>dims = [''lat'', ''lon''], coords = [(''lat'', rlat), (''lon'', rlon)], data_vars = []\<rparr> m path =
     (fs(path \<mapsto> w),
      Inr \<lparr>rg_filename = path, rg_weights = w, rg_lat_out = rlat, rg_lon_out = rlon,
           Ny_in = length lat, Nx_in = length lon, Ny_out = length rlat, Nx_out = length rlon\<rparr>)"
  using assms by (simp add: Regridder_init_def)

lemma Regridder_init_fail:
  assumes "map_of (coords ds_in) ''lat'' = Some lat" "map_of (coords ds_in) ''lon'' = Some lon"
    and "W m (lat, lon) (rlat, rlon) = None"
  shows "Regridder_init W fs ds_in \<lparr>dims = [''lat'', ''lon''], coords = [(''lat'', rlat), (''lon'', rlon)], data_vars = []\<rparr> m path =
     (fs, Inl RegridError)"
  using assms by (simp add: Regridder_init_def)

lemma regrid_InrE:
  assumes "regrid W A folder fs ds ref m = (fs', Inr out)"
  obtains lat lon rlat rlon w output_dict where
    "''lat'' \<in> set (dims ref)" "''lon'' \<in> set (dims ref)"
    "''lat'' \<in> set (dims ds)" "''lon'' \<in> set (dims ds)"
    "m \<in> set regridding_methods"
    "map_of (coords ref) ''lat'' = Some rlat" "map_of (coords ref) ''lon'' = Some rlon"
    "map_of (coords ds) ''lat'' = Some lat" "map_of (coords ds) ''lon'' = Some lon"
    "W m (lat, lon) (rlat, rlon) = Some w"
    "regrid_vars A
       \<lparr>rg_filename = path_join folder (weight_filename m (length lat, length lon) (length rlat, length rlon)),
        rg_weights = w, rg_lat_out = rlat, rg_lon_out = rlon,
        Ny_in = length lat, Nx_in = length lon, Ny_out = length rlat, Nx_out = length rlon\<rparr>
       ds (variables ds) [] = Inr output_dict"
    "out = Dataset_of_dict output_dict"
    "fs' = fs(path_join folder (weight_filename m (length lat, length lon) (length rlat, length rlon)) := None)"
proof -
  from assms have d: "''lat'' \<in> set (dims ref)" "''lon'' \<in> set (dims ref)"
    "''lat'' \<in> set (dims ds)" "''lon'' \<in> set (dims ds)" "m \<in> set regridding_methods"
    by (auto simp: regrid_def split: if_splits)
  from assms d obtain rlat where rlat: "map_of (coords ref) ''lat'' = Some rlat"
    by (cases "map_of (coords ref) ''lat''") (auto simp: regrid_def getattr_def)
  from assms d rlat obtain rlon where rlon: "map_of (coords ref) ''lon'' = Some rlon"
    by (cases "map_of (coords ref) ''lon''") (auto simp: regrid_def getattr_def)
  from assms d rlat rlon obtain lat where lat: "map_of (coords ds) ''lat'' = Some lat"
    by (cases "map_of (coords ds) ''lat''") (auto simp: regrid_def getattr_def)
  from assms d rlat rlon lat obtain lon where lon: "map_of (coords ds) ''lon'' = Some lon"
    by (cases "map_of (coords ds) ''lon''") (auto simp: regrid_def getattr_def)
  let ?path = "path_join folder (weight_filename m (length lat, length lon) (length rlat, length rlon))"
  from assms d rlat rlon lat lon obtain w where w: "W m (lat, lon) (rlat, rlon) = Some w"
    by (cases "W m (lat, lon) (rlat, rlon)")
       (auto simp: regrid_def getattr_def Let_def Regridder_init_fail)
  let ?rg = "\<lparr>rg_filename = ?path, rg_weights = w, rg_lat_out = rlat, rg_lon_out = rlon,
        Ny_in = length lat, Nx_in = length lon, Ny_out = length rlat, Nx_out = length rlon\<rparr>"
  from assms d rlat rlon lat lon w
  have "(case regrid_vars A ?rg ds (variables ds) [] of
            Inl err \<Rightarrow> (fs(?path \<mapsto> w), Inl err)
          | Inr output_dict \<Rightarrow> (clean_weight_file ?rg (fs(?path \<mapsto> w)), Inr (Dataset_of_dict output_dict)))
        = (fs', Inr out)"
    by (simp add: regrid_def getattr_def Let_def Regridder_init_ok)
  then obtain output_dict where "regrid_vars A ?rg ds (variables ds) [] = Inr output_dict"
    and "out = Dataset_of_dict output_dict" and "fs' = fs(?path := None)"
    by (auto simp: clean_weight_file_def split: sum.splits)
  with d rlat rlon lat lon w that show thesis by blast
qed


lemma regrid_vars_error:
  "regrid_vars A rg ds vars acc = Inl err \<Longrightarrow> err = KeyError \<or> err = RegridError"
proof (induction vars arbitrary: acc)
  case Nil
  then show ?case by simp
next
  case (Cons u vars)
  then show ?case
    by (auto simp: getitem_def Regridder_call_def split: sum.splits option.splits)
qed

lemma Regridder_init_error:
  "Regridder_init W fs ds_in ds_out m path = (fs1, Inl err) \<Longrightarrow> err = KeyError \<or> err = RegridError"
  by (auto simp: Regridder_init_def split: option.splits)

lemma getattr_error: "getattr ds name = Inl err \<Longrightarrow> err = AttributeError"
  by (auto simp: getattr_def split: option.splits)

lemma regrid_assertion_only_on_precondition:
  assumes "''lat'' \<in> set (dims ref)" "''lon'' \<in> set (dims ref)"
    and "''lat'' \<in> set (dims ds)" "''lon'' \<in> set (dims ds)"
    and "m \<in> set regridding_methods"
  shows "snd (regrid W A folder fs ds ref m) \<noteq> Inl AssertionError"
proof
  assume a: "snd (regrid W A folder fs ds ref m) = Inl AssertionError"
  show False
  proof (cases "getattr ref ''lat''")
    case (Inl e1)
    with a assms getattr_error [OF Inl] show False by (simp add: regrid_def)
  next
    case rlat: (Inr rlat)
    show False
    proof (cases "getattr ref ''lon''")
      case (Inl e2)
      with a assms rlat getattr_error [OF Inl] show False by (simp add: regrid_def)
    next
      case rlon: (Inr rlon)
      show False
      proof (cases "getattr ds ''lat''")
        case (Inl e3)
        with a assms rlat rlon getattr_error [OF Inl] show False by (simp add: regrid_def)
      next
        case lat: (Inr lat)
        show False
        proof (cases "getattr ds ''lon''")
          case (Inl e4)
          with a assms rlat rlon lat getattr_error [OF Inl] show False by (simp add: regrid_def)
        next
          case lon: (Inr lon)
          let ?path = "path_join folder (weight_filename m (length lat, length lon) (length rlat, length rlon))"
          let ?out = "\<lparr>dims = [''lat'', ''lon''], coords = [(''lat'', rlat), (''lon'', rlon)], data_vars = []\<rparr>"
          obtain fs1 r where init: "Regridder_init W fs ds ?out m ?path = (fs1, r)"
            by (cases "Regridder_init W fs ds ?out m ?path")
          show False
          proof (cases r)
            case (Inl e5)
            with a assms rlat rlon lat lon init Regridder_init_error [of W fs ds ?out m ?path fs1 e5]
            show False by (auto simp: regrid_def Let_def)
          next
            case rg: (Inr rg)
            show False
            proof (cases "regrid_vars A rg ds (variables ds) []")
              case (Inl e6)
              with a assms rlat rlon lat lon init rg regrid_vars_error [OF Inl]
              show False by (auto simp: regrid_def Let_def)
            next
              case (Inr od)
              with a assms rlat rlon lat lon init rg
              show False by (auto simp: regrid_def Let_def)
            qed
          qed
        qed
      qed
    qed
  qed
qed

text \<open>
  C5.  If the reference dataset or the source dataset does not declare both the \<open>lat\<close>
  and the \<open>lon\<close> dimension, \<open>regrid\<close> fails with the assertion's error (and leaves the
  file system as it was); if both declare them and the method is one of the five, it
  does not fail with that error.
\<close>

theorem regrid_requires_lat_lon:
  "(\<not> (''lat'' \<in> set (dims reference_ds) \<and> ''lon'' \<in> set (dims reference_ds) \<and>
        ''lat'' \<in> set (dims ds) \<and> ''lon'' \<in> set (dims ds)) \<longrightarrow>
      regrid esmf_weights esmf_apply interim_folder fs ds reference_ds method = (fs, Inl AssertionError)) \<and>
   (''lat'' \<in> set (dims reference_ds) \<and> ''lon'' \<in> set (dims reference_ds) \<and>
    ''lat'' \<in> set (dims ds) \<and> ''lon'' \<in> set (dims ds) \<and> method \<in> set regridding_methods \<longrightarrow>
      snd (regrid esmf_weights esmf_apply interim_folder fs ds reference_ds method) \<noteq> Inl AssertionError)"
proof (intro conjI impI)
  assume "\<not> (''lat'' \<in> set (dims reference_ds) \<and> ''lon'' \<in> set (dims reference_ds) \<and>
        ''lat'' \<in> set (dims ds) \<and> ''lon'' \<in> set (dims ds))"
  then show "regrid esmf_weights esmf_apply interim_folder fs ds reference_ds method = (fs, Inl AssertionError)"
    by (auto simp: regrid_def)
next
  assume "''lat'' \<in> set (dims reference_ds) \<and> ''lon'' \<in> set (dims reference_ds) \<and>
    ''lat'' \<in> set (dims ds) \<and> ''lon'' \<in> set (dims ds) \<and> method \<in> set regridding_methods"
  then show "snd (regrid esmf_weights esmf_apply interim_folder fs ds reference_ds method) \<noteq> Inl AssertionError"
    using regrid_assertion_only_on_precondition by blast
qed

lemma example_filename:
  "path_join ''data/interim'' (weight_filename ''nearest_s2d'' (Suc (Suc 0), Suc (Suc (Suc 0))) (Suc (Suc (Suc 0)), Suc (Suc 0)))
     = ''data/interim/nearest_s2d_2x3_3x2.nc''"
  by code_simp

lemma example_regrid:
  "regrid fill_weights fill_apply ''data/interim'' example_fs example_ds example_grid ''nearest_s2d'' =
     (example_fs_after, Inr example_out)"
  by (simp add: regrid_def example_ds_def example_grid_def regridding_methods_def getattr_def
      Let_def Regridder_init_def fill_weights_def variables_def getitem_def Regridder_call_def
      fill_apply_def clean_weight_file_def Dataset_of_dict_def merge_names_def eval_nat_numeral
      example_filename example_out_def example_fs_def example_fs_after_def)

lemma example_filename_empty:
  "path_join ''data/interim'' (weight_filename ''nearest_s2d'' (Suc (Suc (Suc 0)), Suc (Suc 0)) (Suc (Suc (Suc 0)), Suc (Suc 0)))
     = ''data/interim/nearest_s2d_3x2_3x2.nc''"
  by code_simp

lemma example_regrid_empty:
  "regrid fill_weights fill_apply ''data/interim'' example_fs example_grid example_grid ''nearest_s2d'' =
     (example_fs, Inr empty_Dataset)"
  by (simp add: regrid_def example_grid_def regridding_methods_def getattr_def
      Let_def Regridder_init_def fill_weights_def variables_def
      clean_weight_file_def Dataset_of_dict_def empty_Dataset_def example_fs_def fun_upd_idem_iff
      example_filename_empty)

theorem regrid_requires_lat_lon_witness:
  "\<not> (''lat'' \<in> set (dims example_grid) \<and> ''lon'' \<in> set (dims example_grid) \<and>
       ''lat'' \<in> set (dims example_no_lon) \<and> ''lon'' \<in> set (dims example_no_lon)) \<and>
   regrid fill_weights fill_apply ''data/interim'' example_fs example_no_lon example_grid ''nearest_s2d''
     = (example_fs, Inl AssertionError) \<and>
   (''lat'' \<in> set (dims example_grid) \<and> ''lon'' \<in> set (dims example_grid) \<and>
    ''lat'' \<in> set (dims example_ds) \<and> ''lon'' \<in> set (dims example_ds) \<and>
    ''nearest_s2d'' \<in> set regridding_methods) \<and>
   snd (regrid fill_weights fill_apply ''data/interim'' example_fs example_ds example_grid ''nearest_s2d'')
     \<noteq> Inl AssertionError"
  using regrid_requires_lat_lon [of example_grid example_no_lon fill_weights fill_apply "''data/interim''" example_fs "''nearest_s2d''"]
    regrid_requires_lat_lon [of example_grid example_ds fill_weights fill_apply "''data/interim''" example_fs "''nearest_s2d''"]
  by (simp add: example_ds_def example_grid_def example_no_lon_def regridding_methods_def)


lemma set_update_subset: "set (AList.update k v al) \<subseteq> insert (k, v) (set al)"
  by (induction al) auto

lemma regrid_vars_coords:
  assumes "regrid_vars A rg ds vars acc = Inr out"
    and "\<forall>kv \<in> set acc. map_of (da_coords (snd kv)) ''lat'' = Some (rg_lat_out rg) \<and>
                          map_of (da_coords (snd kv)) ''lon'' = Some (rg_lon_out rg)"
  shows "\<forall>kv \<in> set out. map_of (da_coords (snd kv)) ''lat'' = Some (rg_lat_out rg) \<and>
                          map_of (da_coords (snd kv)) ''lon'' = Some (rg_lon_out rg)"
  using assms
proof (induction vars arbitrary: acc)
  case Nil
  then show ?case by simp
next
  case (Cons u vars)
  from Cons.prems(1) obtain da r where r: "Regridder_call A rg da = Inr r"
    and rest: "regrid_vars A rg ds vars (AList.update u r acc) = Inr out"
    by (auto split: sum.splits)
  have "\<forall>kv \<in> set (AList.update u r acc). map_of (da_coords (snd kv)) ''lat'' = Some (rg_lat_out rg) \<and>
                          map_of (da_coords (snd kv)) ''lon'' = Some (rg_lon_out rg)"
    using set_update_subset [of u r acc] Cons.prems(2) Regridder_call_coords [OF r] by auto
  from Cons.IH [OF rest this] show ?case .
qed

lemma data_vars_Dataset_of_dict:
  "map_of (data_vars (Dataset_of_dict d)) v =
     map_option (\<lambda>da. \<lparr>var_dims = da_dims da, var_values = da_values da\<rparr>) (map_of d v)"
  unfolding Dataset_of_dict_def by (induction d) auto

lemma keys_Dataset_of_dict: "fst ` set (data_vars (Dataset_of_dict d)) = fst ` set d"
  by (simp add: Dataset_of_dict_def image_image)

lemma coords_Dataset_of_dict:
  assumes "d \<noteq> []" and "\<forall>kv \<in> set d. map_of (da_coords (snd kv)) k = Some v"
  shows "map_of (coords (Dataset_of_dict d)) k = Some v"
proof -
  have "map_of (foldl merge_coords [] (map (\<lambda>kv. da_coords (snd kv)) d)) k = Some v"
    using assms by (intro map_of_foldl_merge_coords_first) auto
  then show ?thesis by (simp add: Dataset_of_dict_def)
qed

lemma regridded_Some:
  assumes "regridded A rg ds v = Some r"
  shows "\<exists>x vs. map_of (data_vars ds) v = Some x \<and> A (rg_weights rg) (var_values x) = Some vs \<and>
           da_dims r = var_dims x \<and> da_values r = vs"
  using assms
  by (auto simp: regridded_def getitem_def Regridder_call_def split: sum.splits option.splits)

lemma regrid_resampled:
  assumes ok: "regrid W A folder fs ds ref m = (fs', Inr out)"
  obtains lat lon rlat rlon w where
    "getattr ds ''lat'' = Inr lat" "getattr ds ''lon'' = Inr lon"
    "getattr ref ''lat'' = Inr rlat" "getattr ref ''lon'' = Inr rlon"
    "W m (lat, lon) (rlat, rlon) = Some w"
    "fst ` set (data_vars out) = fst ` set (data_vars ds)"
    "\<forall>v \<in> fst ` set (data_vars ds). \<exists>x vs.
        map_of (data_vars ds) v = Some x \<and> A w (var_values x) = Some vs \<and>
        map_of (data_vars out) v = Some \<lparr>var_dims = var_dims x, var_values = vs\<rparr>"
    "fs' = fs(path_join folder (weight_filename m (length lat, length lon) (length rlat, length rlon)) := None)"
    "data_vars ds \<noteq> [] \<longrightarrow> getattr out ''lat'' = Inr rlat \<and> getattr out ''lon'' = Inr rlon"
proof -
  from ok obtain lat lon rlat rlon w od where
    c: "map_of (coords ref) ''lat'' = Some rlat" "map_of (coords ref) ''lon'' = Some rlon"
       "map_of (coords ds) ''lat'' = Some lat" "map_of (coords ds) ''lon'' = Some lon"
    and w: "W m (lat, lon) (rlat, rlon) = Some w"
    and vars: "regrid_vars A
       \<lparr>rg_filename = path_join folder (weight_filename m (length lat, length lon) (length rlat, length rlon)),
        rg_weights = w, rg_lat_out = rlat, rg_lon_out = rlon,
        Ny_in = length lat, Nx_in = length lon, Ny_out = length rlat, Nx_out = length rlon\<rparr>
       ds (variables ds) [] = Inr od"
    and out: "out = Dataset_of_dict od"
    and fs': "fs' = fs(path_join folder (weight_filename m (length lat, length lon) (length rlat, length rlon)) := None)"
    by (rule regrid_InrE)
  let ?rg = "\<lparr>rg_filename = path_join folder (weight_filename m (length lat, length lon) (length rlat, length rlon)),
        rg_weights = w, rg_lat_out = rlat, rg_lon_out = rlon,
        Ny_in = length lat, Nx_in = length lon, Ny_out = length rlat, Nx_out = length rlon\<rparr>"
  have keys: "fst ` set od = fst ` set (data_vars ds)"
    using regrid_vars_keys [OF vars] by (simp add: variables_def)
  have k: "fst ` set (data_vars out) = fst ` set (data_vars ds)"
    by (simp add: out keys_Dataset_of_dict keys)
  have each: "\<exists>x vs. map_of (data_vars ds) v = Some x \<and> A w (var_values x) = Some vs \<and>
        map_of (data_vars out) v = Some \<lparr>var_dims = var_dims x, var_values = vs\<rparr>"
    if "v \<in> fst ` set (data_vars ds)" for v
  proof -
    from that have v: "v \<in> set (variables ds)" by (simp add: variables_def)
    from v keys have "v \<in> fst ` set od" by (simp add: variables_def)
    then obtain r where r: "map_of od v = Some r"
      by (cases "map_of od v") (auto simp: map_of_eq_None_iff)
    with regrid_vars_lookup [OF vars, of v] v have "regridded A ?rg ds v = Some r" by simp
    from regridded_Some [OF this] r show ?thesis
      by (auto simp: out data_vars_Dataset_of_dict)
  qed
  have latlon: "getattr out ''lat'' = Inr rlat \<and> getattr out ''lon'' = Inr rlon" if "data_vars ds \<noteq> []"
  proof -
    from that keys have ne: "od \<noteq> []" by auto
    have "\<forall>kv \<in> set od. map_of (da_coords (snd kv)) ''lat'' = Some (rg_lat_out ?rg) \<and>
                          map_of (da_coords (snd kv)) ''lon'' = Some (rg_lon_out ?rg)"
      by (rule regrid_vars_coords [OF vars]) simp
    then have "\<forall>kv \<in> set od. map_of (da_coords (snd kv)) ''lat'' = Some rlat"
      and "\<forall>kv \<in> set od. map_of (da_coords (snd kv)) ''lon'' = Some rlon"
      by simp_all
    from coords_Dataset_of_dict [OF ne this(1)] coords_Dataset_of_dict [OF ne this(2)]
    show ?thesis by (simp add: getattr_def out)
  qed
  show thesis
    by (rule that [of lat lon rlat rlon w]) (use c w k each fs' latlon in \<open>auto simp: getattr_def\<close>)
qed












lemma regrid_result_ignores_files:
  "snd (regrid W A folder fs ds ref m) = snd (regrid W A folder fs2 ds ref m)"
  by (auto simp: regrid_def Regridder_init_def Let_def clean_weight_file_def
      split: sum.splits option.splits prod.splits)


lemma regrid_returns:
  assumes "''lat'' \<in> set (dims ref)" "''lon'' \<in> set (dims ref)"
    and "''lat'' \<in> set (dims ds)" "''lon'' \<in> set (dims ds)"
    and "m \<in> set regridding_methods"
    and "getattr ref ''lat'' = Inr rlat" "getattr ref ''lon'' = Inr rlon"
    and "getattr ds ''lat'' = Inr lat" "getattr ds ''lon'' = Inr lon"
    and "W m (lat, lon) (rlat, rlon) = Some w"
    and "\<forall>kv \<in> set (data_vars ds). A w (var_values (snd kv)) \<noteq> None"
  shows "\<exists>fs' out. regrid W A folder fs ds ref m = (fs', Inr out)"
proof -
  let ?path = "path_join folder (weight_filename m (length lat, length lon) (length rlat, length rlon))"
  let ?rg = "\<lparr>rg_filename = ?path, rg_weights = w, rg_lat_out = rlat, rg_lon_out = rlon,
        Ny_in = length lat, Nx_in = length lon, Ny_out = length rlat, Nx_out = length rlon\<rparr>"
  from assms(6-9) have c: "map_of (coords ref) ''lat'' = Some rlat" "map_of (coords ref) ''lon'' = Some rlon"
    "map_of (coords ds) ''lat'' = Some lat" "map_of (coords ds) ''lon'' = Some lon"
    by (auto simp: getattr_def split: option.splits)
  have "regridded A ?rg ds v \<noteq> None" if "v \<in> set (variables ds)" for v
  proof -
    from that obtain x where x: "map_of (data_vars ds) v = Some x"
      by (cases "map_of (data_vars ds) v") (auto simp: variables_def map_of_eq_None_iff)
    then have "(v, x) \<in> set (data_vars ds)" by (rule map_of_SomeD)
    with assms(11) have "A w (var_values x) \<noteq> None" by auto
    with x show ?thesis
      by (auto simp: regridded_def getitem_def Regridder_call_def)
  qed
  with regrid_vars_Inr_iff [of A ?rg ds "variables ds" "[]"]
  obtain od where "regrid_vars A ?rg ds (variables ds) [] = Inr od" by blast
  with assms(1-5) c assms(10) show ?thesis
    by (simp add: regrid_def getattr_def Let_def Regridder_init_def)
qed

lemma regrid_failure_leaves_weight_file:
  assumes "regrid W A folder fs ds ref m = (fs', Inl RegridError)"
    and "getattr ref ''lat'' = Inr rlat" "getattr ref ''lon'' = Inr rlon"
    and "getattr ds ''lat'' = Inr lat" "getattr ds ''lon'' = Inr lon"
    and "W m (lat, lon) (rlat, rlon) = Some w"
  shows "fs' (path_join folder (weight_filename m (length lat, length lon) (length rlat, length rlon))) = Some w"
  using assms
  by (auto simp: regrid_def getattr_def Let_def Regridder_init_def
      split: if_splits option.splits sum.splits)



text \<open>
  C10 (amended).  When \<open>regrid\<close> returns a dataset for an input with at least one data
  variable, the \<open>lat\<close> and \<open>lon\<close> coordinates of the result are exactly those of the
  reference dataset, whatever the method.
\<close>

theorem regrid_output_on_reference_grid:
  assumes "regrid esmf_weights esmf_apply interim_folder fs ds reference_ds method = (fs', Inr out)"
    and "data_vars ds \<noteq> []"
  shows "getattr out ''lat'' = getattr reference_ds ''lat'' \<and>
         getattr out ''lon'' = getattr reference_ds ''lon'' \<and>
         (\<exists>ref_lat ref_lon. getattr out ''lat'' = Inr ref_lat \<and> getattr out ''lon'' = Inr ref_lon)"
proof -
  from assms(1) obtain ref_lat ref_lon where
    "getattr reference_ds ''lat'' = Inr ref_lat" "getattr reference_ds ''lon'' = Inr ref_lon"
    "data_vars ds \<noteq> [] \<longrightarrow> getattr out ''lat'' = Inr ref_lat \<and> getattr out ''lon'' = Inr ref_lon"
    by (rule regrid_resampled)
  with assms(2) show ?thesis by simp
qed

theorem regrid_output_on_reference_grid_witness:
  "regrid fill_weights fill_apply ''data/interim'' example_fs example_ds example_grid ''nearest_s2d''
     = (example_fs_after, Inr example_out) \<and>
   data_vars example_ds \<noteq> [] \<and>
   getattr example_out ''lat'' = getattr example_grid ''lat'' \<and>
   getattr example_out ''lon'' = getattr example_grid ''lon'' \<and>
   getattr example_out ''lat'' = Inr [0, 1/2, 1] \<and> getattr example_out ''lon'' = Inr [10, 12]"
proof -
  have ne: "data_vars example_ds \<noteq> []"
    by (simp add: example_ds_def)
  have "getattr example_out ''lat'' = Inr [0, 1/2, 1]" "getattr example_out ''lon'' = Inr [10, 12]"
    by (simp_all add: getattr_def example_out_def)
  with regrid_output_on_reference_grid [OF example_regrid ne] example_regrid ne
  show ?thesis by simp
qed

text \<open>
  C10 (as stated, refuted).  A dataset with the \<open>lat\<close> and \<open>lon\<close> dimensions but no data
  variable is accepted by \<open>regrid\<close>; the loop runs over no variable, the result is built
  from an empty dictionary, and it has no \<open>lat\<close> and no \<open>lon\<close> coordinate at all, while
  the reference dataset has both.
\<close>

theorem regrid_no_variables_no_grid:
  "regrid fill_weights fill_apply ''data/interim'' example_fs example_grid example_grid ''nearest_s2d''
     = (example_fs, Inr empty_Dataset) \<and>
   getattr empty_Dataset ''lat'' = Inl AttributeError \<and>
   getattr example_grid ''lat'' = Inr [0, 1/2, 1] \<and>
   getattr empty_Dataset ''lon'' = Inl AttributeError \<and>
   getattr example_grid ''lon'' = Inr [10, 12]"
  using example_regrid_empty
  by (simp add: getattr_def empty_Dataset_def example_grid_def)

section \<open>Properties of temporal resampling\<close>









lemma month_end_fields:
  "year (month_end k) = k div 12" "month (month_end k) = k mod 12 + 1"
  "day (month_end k) = days_in_month (k div 12) (k mod 12 + 1)"
  by (simp_all add: month_end_def)






















section \<open>Properties of cropping\<close>


















end
